theory Spec2Isabelle
  imports Main "HOL-Library.Word" "HOL-Library.Sublist"
begin

section \<open>Go values shared by the adapters\<close>

text \<open>
  Go's \<open>error\<close> values as they are built in the sources: the sentinel \<open>io.EOF\<close>, an
  error handed back by a library or by the network (with its message; \<open>Lib\<close> wraps
  nothing, \<open>LibWrap\<close> unwraps to another error, as \<open>*url.Error\<close> does), and the result
  of \<open>fmt.Errorf\<close>, kept as the format string with its arguments.
\<close>

datatype error = EOF | Lib string | LibWrap string error | Errorf string "fmtarg list"
and fmtarg = ArgInt int | ArgStr string | ArgType string | ArgNil | ArgErr error

text \<open>
  \<open>fmt.Errorf\<close> wraps an argument only when the verb that consumes it is \<open>%w\<close>. For each
  argument consumed by the format, in order: whether its verb is \<open>%w\<close>. A verb is the
  byte after \<open>%\<close> (the formats of the sources use no flags or widths), and \<open>%%\<close> is a
  literal percent sign that consumes nothing.
\<close>

fun wrap_verbs :: "string \<Rightarrow> bool list" where
  "wrap_verbs (a # b # r) =
     (if a = CHR ''%''
      then (if b = CHR ''%'' then wrap_verbs r else (b = CHR ''w'') # wrap_verbs r)
      else wrap_verbs (b # r))"
| "wrap_verbs _ = []"

text \<open>
  \<open>errors.Is(err, io.EOF)\<close>: the error is \<open>io.EOF\<close>, or unwraps to an error that is, through
  a wrapping library error or an argument formatted with \<open>%w\<close>.
\<close>

fun errors_Is_EOF :: "error \<Rightarrow> bool"
and args_Is_EOF :: "bool list \<Rightarrow> fmtarg list \<Rightarrow> bool" where
  "errors_Is_EOF EOF = True"
| "errors_Is_EOF (Lib m) = False"
| "errors_Is_EOF (LibWrap m e) = errors_Is_EOF e"
| "errors_Is_EOF (Errorf f as) = args_Is_EOF (wrap_verbs f) as"
| "args_Is_EOF (w # ws) (ArgErr e # as) = ((w \<and> errors_Is_EOF e) \<or> args_Is_EOF ws as)"
| "args_Is_EOF (w # ws) (a # as) = args_Is_EOF ws as"
| "args_Is_EOF _ _ = False"

text \<open>Go's \<open>int\<close> on the 64-bit targets the service is built for.\<close>

type_synonym go_int = "64 word"

section \<open>Usage recorder: token accounting\<close>

text \<open>
  \<open>Token\<close> embeds a \<open>*tiktoken.Tiktoken\<close>. \<open>NewTikToken\<close> logs a failed
  \<open>EncodingForModel\<close> and still returns the \<open>Token\<close>, so the pointer may be nil
  (\<open>None\<close>); the encoder of the library is the function inside \<open>Some\<close>.
\<close>

record Token =
  Tiktoken :: "(string \<Rightarrow> int list) option"

record ChatCompletionMessage =
  Role :: string
  Content :: string

datatype panic = NilPointerDereference

definition Encode :: "Token \<Rightarrow> string \<Rightarrow> panic + go_int" where
  "Encode t text =
     (case Tiktoken t of
        None \<Rightarrow> Inl NilPointerDereference
      | Some enc \<Rightarrow> Inr (of_nat (length (enc text))))"

text \<open>The \<open>for _, message := range messages\<close> loop, \<open>totalTokens\<close> as accumulator.\<close>

fun sum_tokens :: "Token \<Rightarrow> go_int \<Rightarrow> 'a ChatCompletionMessage_scheme list \<Rightarrow> panic + go_int" where
  "sum_tokens t totalTokens [] = Inr totalTokens"
| "sum_tokens t totalTokens (message # messages) =
     (case Encode t (Content message) of
        Inl p \<Rightarrow> Inl p
      | Inr n \<Rightarrow> sum_tokens t (totalTokens + n) messages)"

definition CalculateTotalTokensFromMessages ::
  "Token \<Rightarrow> 'a ChatCompletionMessage_scheme list \<Rightarrow> panic + go_int" where
  "CalculateTotalTokensFromMessages t messages = sum_tokens t 0 messages"

text \<open>The mathematical sum the accounting is meant to compute.\<close>

definition token_total :: "(string \<Rightarrow> int list) \<Rightarrow> 'a ChatCompletionMessage_scheme list \<Rightarrow> nat" where
  "token_total enc messages = sum_list (map (\<lambda>m. length (enc (Content m))) messages)"

section \<open>Bard client construction\<close>

record Cookie =
  Name :: string
  Value :: string
  Domain :: string

text \<open>
  The \<open>session\<close> of a client is represented by the contents of its cookie jar; the
  \<open>cookies\<close> map is an association list, ranged over in list order.
\<close>

record Client =
  token :: string
  snlm0e :: string
  cfb2h :: string
  cookies :: "(string \<times> string) list"
  timeout :: int
  session :: "Cookie list"

type_synonym ClientOption = "Client \<Rightarrow> Client"

record Response =
  StatusCode :: int
  Body :: "error + string"

text \<open>
  What lies outside the repository is a parameter: \<open>Do\<close> is \<open>session.Do\<close> (the only
  network call of the constructor; it receives the URL and the jar), and
  \<open>FindStringSubmatch\<close> is the regular-expression match of package \<open>regexp\<close>.
\<close>

definition cookieTokenKey :: string where
  "cookieTokenKey = ''__Secure-1PSID''"

definition setCookie :: "string \<Rightarrow> string \<Rightarrow> Cookie" where
  "setCookie key val = \<lparr>Name = key, Value = val, Domain = ''google.com''\<rparr>"

definition extractFromHTML ::
  "(string \<Rightarrow> string \<Rightarrow> string list) \<Rightarrow> string \<Rightarrow> string \<Rightarrow> error + string" where
  "extractFromHTML FindStringSubmatch body name =
     (let matches = FindStringSubmatch (name @ [CHR 0x22, CHR '':'', CHR 0x22] @ ''(.*?)'' @ [CHR 0x22]) body
      in if length matches \<noteq> 2
         then Inl (Errorf (name @ '' value not found in response. Check __Secure-1PSID value.'') [])
         else Inr (matches ! 1))"

text \<open>\<open>initMeta\<close> returns the updated client, its error and the requests it issued.\<close>

definition initMeta ::
  "(string \<Rightarrow> Cookie list \<Rightarrow> error + Response) \<Rightarrow> (string \<Rightarrow> string \<Rightarrow> string list) \<Rightarrow>
   Client \<Rightarrow> Client \<times> error option \<times> string list" where
  "initMeta Do FindStringSubmatch b =
     (let url = ''https://bard.google.com/'' in
      case Do url (session b) of
        Inl err \<Rightarrow> (b, Some err, [url])
      | Inr resp \<Rightarrow>
          if StatusCode resp \<noteq> 200
          then (b, Some (Errorf ''Response code not 200. Response Status is %d'' [ArgInt (StatusCode resp)]), [url])
          else (case Body resp of
                  Inl err \<Rightarrow> (b, Some err, [url])
                | Inr body \<Rightarrow>
                    (case extractFromHTML FindStringSubmatch body ''SNlM0e'' of
                       Inl err \<Rightarrow> (b, Some err, [url])
                     | Inr s \<Rightarrow>
                         (let b1 = b\<lparr>snlm0e := s\<rparr> in
                          case extractFromHTML FindStringSubmatch body ''cfb2h'' of
                            Inl err \<Rightarrow> (b1, Some err, [url])
                          | Inr c \<Rightarrow> (b1\<lparr>cfb2h := c\<rparr>, None, [url])))))"

text \<open>
  \<open>jar.SetCookies\<close>: the jar keeps one cookie per name (all cookies here share domain and
  path), a later cookie replacing an earlier one of the same name.
\<close>

definition set_one_cookie :: "Cookie list \<Rightarrow> Cookie \<Rightarrow> Cookie list" where
  "set_one_cookie jar c =
     (if list_ex (\<lambda>x. Name x = Name c) jar
      then map (\<lambda>x. if Name x = Name c then c else x) jar
      else jar @ [c])"

definition SetCookies :: "Cookie list \<Rightarrow> Cookie list \<Rightarrow> Cookie list" where
  "SetCookies jar cs = fold (\<lambda>c j. set_one_cookie j c) cs jar"

text \<open>
  \<open>NewBardClient\<close> returns the client pointer (\<open>None\<close> is nil), the error (\<open>None\<close> is
  nil) and the network requests issued, in order.
\<close>

definition NewBardClient ::
  "(string \<Rightarrow> Cookie list \<Rightarrow> error + Response) \<Rightarrow> (string \<Rightarrow> string \<Rightarrow> string list) \<Rightarrow>
   string \<Rightarrow> ClientOption list \<Rightarrow> Client option \<times> error option \<times> string list" where
  "NewBardClient Do FindStringSubmatch tok opts =
     (if tok = '''' \<or> \<not> suffix ''.'' tok
      then (None,
            Some (Errorf ''__Secure-1PSID value must end with a single dot. Enter correct __Secure-1PSID value: %s'' [ArgStr tok]),
            [])
      else
        (let b0 = \<lparr>token = tok, snlm0e = '''', cfb2h = '''', cookies = [], timeout = 0, session = []\<rparr>;
             b1 = fold (\<lambda>opt b. opt b) opts b0;
             cs = setCookie cookieTokenKey (token b1) # map (\<lambda>(key, val). setCookie key val) (cookies b1);
             b2 = b1\<lparr>session := SetCookies (session b1) cs\<rparr>;
             (b3, err, calls) = initMeta Do FindStringSubmatch b2
         in (Some b3, err, calls)))"

section \<open>Streaming: the two channels\<close>

text \<open>
  A run of a streaming operation is observed as the sends it performs, in order, on the
  two unbuffered channels it is given: \<open>dataChan\<close> (named \<open>streamChan\<close> in the Claude
  web client) and \<open>errChan\<close>. The consumer is taken to receive every send.
\<close>

datatype 'd send = dataChan 'd | errChan error

fun is_errChan :: "'d send \<Rightarrow> bool" where
  "is_errChan (errChan e) = True"
| "is_errChan (dataChan d) = False"

fun is_dataChan :: "'d send \<Rightarrow> bool" where
  "is_dataChan (dataChan d) = True"
| "is_dataChan (errChan e) = False"

record ChatCompletionRequest =
  Model :: string
  Stream :: bool

section \<open>Bedrock adapter (package claude)\<close>

record BedrockResponse =
  Completion :: string

text \<open>
  The members of the SDK's union \<open>types.ResponseStream\<close>: a chunk with its bytes, the
  SDK's \<open>UnknownUnionMember\<close>, and any other implementation (with its type name, which
  is all that \<open>%T\<close> prints).
\<close>

datatype ResponseStream =
  ResponseStreamMemberChunk string
| UnknownUnionMember
| OtherMember string

text \<open>
  The SDK's event stream: \<open>Events\<close> are what the channel \<open>Events()\<close> yields before it is
  closed. When reading from the connection fails, the SDK closes that channel and keeps
  the failure for \<open>Err()\<close>; \<open>Err\<close> is that value (\<open>None\<close> after a clean end).
\<close>

record EventStream =
  Events :: "ResponseStream list"
  Err :: "error option"

record InvokeModelWithResponseStreamInput =
  ModelId :: string
  InputBody :: string
  ContentType :: string

text \<open>
  The \<open>for event := range output.GetStream().Events()\<close> loop. \<open>Decode\<close> is the JSON
  decoder into a fresh \<open>BedrockResponse\<close>, \<open>ToChatCompletionStreamResponse\<close> the
  conversion declared with the response type; \<open>sb\<close> is the string builder.
\<close>

fun events_loop ::
  "(string \<Rightarrow> error + 'b BedrockResponse_scheme) \<Rightarrow> ('b BedrockResponse_scheme \<Rightarrow> 'd) \<Rightarrow>
   string \<Rightarrow> ResponseStream list \<Rightarrow> 'd send list" where
  "events_loop Decode ToChatCompletionStreamResponse sb [] = [errChan EOF]"
| "events_loop Decode ToChatCompletionStreamResponse sb (ResponseStreamMemberChunk bytes # events) =
     (case Decode bytes of
        Inl err \<Rightarrow> [errChan err]
      | Inr resp \<Rightarrow>
          dataChan (ToChatCompletionStreamResponse resp) #
          events_loop Decode ToChatCompletionStreamResponse (sb @ Completion resp) events)"
| "events_loop Decode ToChatCompletionStreamResponse sb (UnknownUnionMember # events) =
     [errChan (Errorf ''unknown event type: %T'' [ArgType ''*types.UnknownUnionMember''])]"
| "events_loop Decode ToChatCompletionStreamResponse sb (OtherMember ty # events) =
     [errChan (Errorf ''unknown event type: %T'' [ArgType ty])]"

text \<open>
  \<open>Client.CreateChatCompletionStream\<close> of package claude. \<open>Marshal\<close> stands for
  \<open>FromChatCompletionRequest\<close> followed by \<open>Marshal\<close>, and
  \<open>InvokeModelWithResponseStream\<close> for the SDK call. The result is the list of upstream
  calls made and the sends performed.
\<close>

definition claude_CreateChatCompletionStream ::
  "('a ChatCompletionRequest_scheme \<Rightarrow> string) \<Rightarrow>
   (InvokeModelWithResponseStreamInput \<Rightarrow> error + EventStream) \<Rightarrow>
   (string \<Rightarrow> error + 'b BedrockResponse_scheme) \<Rightarrow> ('b BedrockResponse_scheme \<Rightarrow> 'd) \<Rightarrow>
   'a ChatCompletionRequest_scheme \<Rightarrow> InvokeModelWithResponseStreamInput list \<times> 'd send list" where
  "claude_CreateChatCompletionStream Marshal InvokeModelWithResponseStream Decode
       ToChatCompletionStreamResponse req =
     (let input = \<lparr>ModelId = Model req, InputBody = Marshal req, ContentType = ''application/json''\<rparr>
      in case InvokeModelWithResponseStream input of
           Inl err \<Rightarrow> ([input], [errChan err])
         | Inr output \<Rightarrow>
             ([input], events_loop Decode ToChatCompletionStreamResponse [] (Events output)))"

section \<open>Together adapter\<close>

record TogetherClient =
  baseUrl :: string
  Apikey :: string

record Request =
  Method :: string
  URL :: string
  Header :: "(string \<times> string) list"
  ReqBody :: string

definition setHeaders :: "TogetherClient \<Rightarrow> (string \<times> string) list" where
  "setHeaders c =
     [(''Authorization'', ''Bearer '' @ Apikey c),
      (''Content-Type'', ''application/json''),
      (''Accept'', ''application/json''),
      (''User-Agent'', ''TogetherPythonOfficial/0.2.10'')]"

definition completions_request :: "TogetherClient \<Rightarrow> string \<Rightarrow> Request" where
  "completions_request c reqBody =
     \<lparr>Method = ''POST'', URL = baseUrl c @ ''/v1/completions'', Header = setHeaders c,
      ReqBody = reqBody\<rparr>"

text \<open>
  What a call of the adapter does: the provider request it built (\<open>togReq\<close>), the HTTP
  requests it sent, and its result.
\<close>

record ('t, 'r) together_call =
  togReq :: 't
  sent :: "Request list"
  result :: 'r

text \<open>
  \<open>Client.CreateChatCompletion\<close>. The types \<open>TogetherChatRequest\<close> and
  \<open>TogetherChatResponse\<close> with their conversions live outside the files at hand, so
  \<open>FromChatCompletionRequest\<close>, \<open>Marshal\<close>, \<open>Decode\<close> and
  \<open>ToChatCompletionResponse\<close> are parameters, as is \<open>Do\<close>, the HTTP round trip.
\<close>

definition together_CreateChatCompletion ::
  "('a ChatCompletionRequest_scheme \<Rightarrow> 't) \<Rightarrow> ('t \<Rightarrow> error + string) \<Rightarrow>
   (Request \<Rightarrow> error + 'h) \<Rightarrow> ('h \<Rightarrow> error + 'u) \<Rightarrow> ('u \<Rightarrow> 'v) \<Rightarrow>
   TogetherClient \<Rightarrow> 'a ChatCompletionRequest_scheme \<Rightarrow> ('t, error + 'v) together_call" where
  "together_CreateChatCompletion FromChatCompletionRequest Marshal Do Decode
       ToChatCompletionResponse c req0 =
     (let req = req0\<lparr>Stream := False\<rparr>;
          tog = FromChatCompletionRequest req
      in case Marshal tog of
           Inl err \<Rightarrow>
             \<lparr>togReq = tog, sent = [],
              result = Inl (Errorf ''create chat completion marshal request error: %w'' [ArgErr err])\<rparr>
         | Inr reqBody \<Rightarrow>
             (let httpReq = completions_request c reqBody
              in case Do httpReq of
                   Inl err \<Rightarrow>
                     \<lparr>togReq = tog, sent = [httpReq],
                      result = Inl (Errorf ''create chat completion error: %w'' [ArgErr err])\<rparr>
                 | Inr resp \<Rightarrow>
                     (case Decode resp of
                        Inl err \<Rightarrow>
                          \<lparr>togReq = tog, sent = [httpReq],
                           result = Inl (Errorf ''create chat completion decode response error: %w'' [ArgErr err])\<rparr>
                      | Inr togResp \<Rightarrow>
                          \<lparr>togReq = tog, sent = [httpReq],
                           result = Inr (ToChatCompletionResponse togResp)\<rparr>)))"

text \<open>
  What \<open>llm.ParseSSE\<close>, running on its own goroutine, publishes on the two inner
  channels, in order. \<open>ParseSSE\<close> itself is declared in another package.
\<close>

datatype 'u inner = innerDataChan 'u | innerErrChan error

fun is_innerErrChan :: "'u inner \<Rightarrow> bool" where
  "is_innerErrChan (innerErrChan e) = True"
| "is_innerErrChan (innerDataChan d) = False"

text \<open>
  The \<open>for { select { ... } }\<close> loop of \<open>CreateChatCompletionStream\<close>: the sends made, and
  whether the loop returns. Once nothing more arrives on either inner channel the
  \<open>select\<close> blocks for good and the function does not return.
\<close>

fun relay_loop :: "('u \<Rightarrow> 'd) \<Rightarrow> 'u inner list \<Rightarrow> 'd send list \<times> bool" where
  "relay_loop ToChatCompletionStreamResponse [] = ([], False)"
| "relay_loop ToChatCompletionStreamResponse (innerDataChan data # rest) =
     (let (sends, returned) = relay_loop ToChatCompletionStreamResponse rest
      in (dataChan (ToChatCompletionStreamResponse data) # sends, returned))"
| "relay_loop ToChatCompletionStreamResponse (innerErrChan err # rest) = ([errChan err], True)"

text \<open>\<open>Client.CreateChatCompletionStream\<close> of package together.\<close>

definition together_CreateChatCompletionStream ::
  "('a ChatCompletionRequest_scheme \<Rightarrow> 't) \<Rightarrow> ('t \<Rightarrow> error + string) \<Rightarrow>
   (Request \<Rightarrow> error + 'h) \<Rightarrow> ('h \<Rightarrow> 'u inner list) \<Rightarrow> ('u \<Rightarrow> 'd) \<Rightarrow>
   TogetherClient \<Rightarrow> 'a ChatCompletionRequest_scheme \<Rightarrow> ('t, 'd send list \<times> bool) together_call" where
  "together_CreateChatCompletionStream FromChatCompletionRequest Marshal Do ParseSSE
       ToChatCompletionStreamResponse c req0 =
     (let req = req0\<lparr>Stream := True\<rparr>;
          tog = FromChatCompletionRequest req
      in case Marshal tog of
           Inl err \<Rightarrow>
             \<lparr>togReq = tog, sent = [],
              result = ([errChan (Errorf ''create chat completion stream marshal request error: %w'' [ArgErr err])], True)\<rparr>
         | Inr reqBody \<Rightarrow>
             (let httpReq = completions_request c reqBody
              in case Do httpReq of
                   Inl err \<Rightarrow>
                     \<lparr>togReq = tog, sent = [httpReq],
                      result = ([errChan (Errorf ''create chat completion stream error: %w'' [ArgErr err])], True)\<rparr>
                 | Inr resp \<Rightarrow>
                     \<lparr>togReq = tog, sent = [httpReq],
                      result = relay_loop ToChatCompletionStreamResponse (ParseSSE resp)\<rparr>))"

section \<open>Claude web client (package claudeweb)\<close>

record ChatMessageResponse =
  Completion :: string

text \<open>
  The response body handed back by \<open>createChatMessage\<close>: the bytes it delivers, and the
  error its reader reports once they are used up (\<open>io.EOF\<close> at a clean end, another
  error when the connection drops).
\<close>

record ReadCloser =
  content :: string
  closing :: error

text \<open>
  \<open>bufio.Reader.ReadBytes\<close>: the bytes up to and including the first delimiter, the
  rest of the buffer, and whether the delimiter was found. When it was not, the bytes
  left are returned together with the reader's error.
\<close>

definition ReadBytes :: "char \<Rightarrow> string \<Rightarrow> string \<times> string \<times> bool" where
  "ReadBytes delim buf =
     (case dropWhile (\<lambda>c. c \<noteq> delim) buf of
        [] \<Rightarrow> (buf, [], False)
      | d # rest \<Rightarrow> (takeWhile (\<lambda>c. c \<noteq> delim) buf @ [delim], rest, True))"

text \<open>
  The read loop of \<open>CreateChatMessage\<close>. \<open>Unmarshal\<close> is \<open>json.Unmarshal\<close> into the
  variable \<open>chatMessageResponse\<close>, which is declared outside the loop: each line is
  decoded into the value the previous line left.
\<close>

function CreateChatMessage_loop ::
  "(string \<Rightarrow> 'a ChatMessageResponse_scheme \<Rightarrow> error + 'a ChatMessageResponse_scheme) \<Rightarrow>
   'a ChatMessageResponse_scheme \<Rightarrow> string \<Rightarrow> string \<Rightarrow> error \<Rightarrow>
   error + 'a ChatMessageResponse_scheme" where
  "CreateChatMessage_loop Unmarshal chatMessageResponse sb buf closing_err =
     (case ReadBytes (CHR 0x0A) buf of
        (line, rest, found) \<Rightarrow>
          if \<not> found then
            (if closing_err = EOF
             then Inr (chatMessageResponse\<lparr>Completion := sb\<rparr>)
             else Inl (Errorf ''CreateChatMessage read response body err: %v'' [ArgErr closing_err]))
          else if length line > 6 then
            (case Unmarshal (drop 6 line) chatMessageResponse of
               Inl err \<Rightarrow> Inl (Errorf ''CreateChatMessage unmarshal response body err: %v'' [ArgErr err])
             | Inr r \<Rightarrow> CreateChatMessage_loop Unmarshal r (sb @ Completion r) rest closing_err)
          else CreateChatMessage_loop Unmarshal chatMessageResponse sb rest closing_err)"
  by pat_completeness auto
termination
  apply (relation "measure (\<lambda>(U, r, sb, buf, e). length buf)")
    apply simp
   apply (auto simp: ReadBytes_def less_Suc_eq_le split: list.splits)
   apply (metis length_dropWhile_le length_Cons Suc_le_lessD)
  apply (metis length_dropWhile_le length_Cons Suc_le_lessD)
  done

text \<open>
  \<open>ClaudeWeb.CreateChatMessage\<close>, from the result of \<open>createChatMessage\<close> (body, status
  code, error). \<open>zero\<close> is the zero value of \<open>ChatMessageResponse\<close>.
\<close>

definition CreateChatMessage ::
  "(string \<Rightarrow> 'a ChatMessageResponse_scheme \<Rightarrow> error + 'a ChatMessageResponse_scheme) \<Rightarrow>
   'a ChatMessageResponse_scheme \<Rightarrow> ReadCloser \<times> int \<times> error option \<Rightarrow>
   error + 'a ChatMessageResponse_scheme" where
  "CreateChatMessage Unmarshal zero call =
     (case call of
        (resp, statusCode, Some err) \<Rightarrow> Inl (Errorf ''CreateChatMessage err: %v'' [ArgErr err])
      | (resp, statusCode, None) \<Rightarrow>
          if statusCode \<ge> 400
          then Inl (Errorf ''CreateChatMessage status_code %d err: %v'' [ArgInt statusCode, ArgNil])
          else CreateChatMessage_loop Unmarshal zero [] (content resp) (closing resp))"

text \<open>
  The read loop of \<open>CreateChatMessageStream\<close>; here \<open>chatMessageResponse\<close> is declared
  inside the loop, so every line is decoded into a fresh zero value.
\<close>

function CreateChatMessageStream_loop ::
  "(string \<Rightarrow> 'a ChatMessageResponse_scheme \<Rightarrow> error + 'a ChatMessageResponse_scheme) \<Rightarrow>
   'a ChatMessageResponse_scheme \<Rightarrow> string \<Rightarrow> error \<Rightarrow> 'a ChatMessageResponse_scheme send list" where
  "CreateChatMessageStream_loop Unmarshal zero buf closing_err =
     (case ReadBytes (CHR 0x0A) buf of
        (line, rest, found) \<Rightarrow>
          if \<not> found then
            (if closing_err = EOF
             then [errChan EOF]
             else [errChan (Errorf ''createChatMessageStream read response body err: %v'' [ArgErr closing_err])])
          else if length line > 6 then
            (case Unmarshal (drop 6 line) zero of
               Inl err \<Rightarrow> [errChan (Errorf ''createChatMessageStream unmarshal response body err: %v'' [ArgErr err])]
             | Inr r \<Rightarrow> dataChan r # CreateChatMessageStream_loop Unmarshal zero rest closing_err)
          else CreateChatMessageStream_loop Unmarshal zero rest closing_err)"
  by pat_completeness auto
termination
  apply (relation "measure (\<lambda>(U, z, buf, e). length buf)")
    apply simp
   apply (auto simp: ReadBytes_def less_Suc_eq_le split: list.splits)
   apply (metis length_dropWhile_le length_Cons Suc_le_lessD)
  apply (metis length_dropWhile_le length_Cons Suc_le_lessD)
  done

definition CreateChatMessageStream ::
  "(string \<Rightarrow> 'a ChatMessageResponse_scheme \<Rightarrow> error + 'a ChatMessageResponse_scheme) \<Rightarrow>
   'a ChatMessageResponse_scheme \<Rightarrow> ReadCloser \<times> int \<times> error option \<Rightarrow>
   'a ChatMessageResponse_scheme send list" where
  "CreateChatMessageStream Unmarshal zero call =
     (case call of
        (resp, statusCode, Some err) \<Rightarrow>
          [errChan (Errorf ''CreateChatMessage failed with status_code %d, err: %v'' [ArgInt statusCode, ArgErr err])]
      | (resp, statusCode, None) \<Rightarrow>
          if statusCode \<ge> 400
          then [errChan (Errorf ''CreateChatMessage status_code %d err: %v'' [ArgInt statusCode, ArgNil])]
          else CreateChatMessageStream_loop Unmarshal zero (content resp) (closing resp))"

section \<open>HTTP handlers: the SSE relay loops\<close>

text \<open>
  What a handler does to the echo context, in order. The text of \<open>c.String\<close> is either
  a literal or \<open>err.Error()\<close> of an error.
\<close>

datatype reply = Text string | Error_of error

datatype http_effect =
  SetHeader string string
| WriteHeader int
| Write string
| Flush
| String int reply

definition sse_frame :: "string \<Rightarrow> string" where
  "sse_frame msg = ''data: '' @ msg @ [CHR 0x0A, CHR 0x0A]"

definition sse_done :: string where
  "sse_done = ''data: [DONE]'' @ [CHR 0x0A, CHR 0x0A]"

text \<open>
  The loop of \<open>OpenAIHandler.chatStream\<close> over the results of successive \<open>stream.Recv()\<close>
  calls (response and error, \<open>None\<close> for nil). \<open>Marshal\<close> is \<open>json.Marshal\<close>; \<open>conn n\<close> is
  the error of the \<open>n\<close>-th \<open>Write\<close> on the connection. The result is the effects and
  whether the handler returns; with no further \<open>Recv\<close> result it waits.
\<close>

fun OpenAIHandler_loop ::
  "('r \<Rightarrow> error + string) \<Rightarrow> (nat \<Rightarrow> error option) \<Rightarrow> nat \<Rightarrow> ('r \<times> error option) list \<Rightarrow>
   http_effect list \<times> bool" where
  "OpenAIHandler_loop Marshal conn n [] = ([], False)"
| "OpenAIHandler_loop Marshal conn n ((resp, err) # stream) =
     (if (case err of None \<Rightarrow> False | Some e \<Rightarrow> errors_Is_EOF e)
      then ([String 200 (Text sse_done)], True)
      else
        (case Marshal resp of
           Inl e \<Rightarrow> ([String 500 (Error_of e)], True)
         | Inr msg \<Rightarrow>
             (case conn n of
                Some e \<Rightarrow> ([Write (sse_frame msg), String 500 (Error_of e)], True)
              | None \<Rightarrow>
                  (let (effects, returned) = OpenAIHandler_loop Marshal conn (Suc n) stream
                   in (Write (sse_frame msg) # Flush # effects, returned)))))"

definition OpenAIHandler_chatStream ::
  "('r \<Rightarrow> error + string) \<Rightarrow> (nat \<Rightarrow> error option) \<Rightarrow> error + ('r \<times> error option) list \<Rightarrow>
   http_effect list \<times> bool" where
  "OpenAIHandler_chatStream Marshal conn ChatStream =
     (case ChatStream of
        Inl err \<Rightarrow> ([String 500 (Error_of err)], True)
      | Inr stream \<Rightarrow>
          (let (effects, returned) = OpenAIHandler_loop Marshal conn 0 stream
           in (SetHeader ''Content-Type'' ''application/json; charset=UTF-8'' # WriteHeader 200 # effects,
               returned)))"

text \<open>
  The \<open>for { select { ... } }\<close> loop of \<open>LLMHandler.chatStream\<close> over what the service's
  goroutine sends on \<open>dataChan\<close> and \<open>errChan\<close>.
\<close>

fun LLMHandler_loop ::
  "('d \<Rightarrow> error + string) \<Rightarrow> (nat \<Rightarrow> error option) \<Rightarrow> nat \<Rightarrow> 'd send list \<Rightarrow>
   http_effect list \<times> bool" where
  "LLMHandler_loop Marshal conn n [] = ([], False)"
| "LLMHandler_loop Marshal conn n (dataChan data # sends) =
     (case Marshal data of
        Inl err \<Rightarrow> ([String 500 (Error_of err)], True)
      | Inr msg \<Rightarrow>
          (case conn n of
             Some err \<Rightarrow> ([Write (sse_frame msg), String 500 (Error_of err)], True)
           | None \<Rightarrow>
               (let (effects, returned) = LLMHandler_loop Marshal conn (Suc n) sends
                in (Write (sse_frame msg) # Flush # effects, returned))))"
| "LLMHandler_loop Marshal conn n (errChan err # sends) =
     (if errors_Is_EOF err
      then ([String 200 (Text sse_done)], True)
      else ([String 500 (Error_of err)], True))"

definition LLMHandler_chatStream ::
  "('d \<Rightarrow> error + string) \<Rightarrow> (nat \<Rightarrow> error option) \<Rightarrow> 'd send list \<Rightarrow> http_effect list \<times> bool" where
  "LLMHandler_chatStream Marshal conn sends =
     (let (effects, returned) = LLMHandler_loop Marshal conn 0 sends
      in (SetHeader ''Content-Type'' ''text/event-stream'' #
          SetHeader ''Cache-Control'' ''no-cache'' #
          SetHeader ''Connection'' ''keep-alive'' #
          WriteHeader 200 # effects,
          returned))"

section \<open>Notions used to state the properties\<close>

text \<open>The newline-terminated lines of a body, as successive \<open>ReadBytes\<close> calls cut them.\<close>

function terminated_lines :: "string \<Rightarrow> string list" where
  "terminated_lines buf =
     (case ReadBytes (CHR 0x0A) buf of
        (line, rest, found) \<Rightarrow> if found then line # terminated_lines rest else [])"
  by pat_completeness auto
termination
  apply (relation "measure length")
   apply simp
  apply (auto simp: ReadBytes_def less_Suc_eq_le split: list.splits)
  apply (metis length_dropWhile_le length_Cons Suc_le_lessD)
  done

text \<open>The bytes after the last newline: the final line when it is not terminated.\<close>

function last_fragment :: "string \<Rightarrow> string" where
  "last_fragment buf =
     (case ReadBytes (CHR 0x0A) buf of
        (line, rest, found) \<Rightarrow> if found then last_fragment rest else line)"
  by pat_completeness auto
termination
  apply (relation "measure length")
   apply simp
  apply (auto simp: ReadBytes_def less_Suc_eq_le split: list.splits)
  apply (metis length_dropWhile_le length_Cons Suc_le_lessD)
  done

definition longer_than_6 :: "string list \<Rightarrow> string list" where
  "longer_than_6 ls = filter (\<lambda>l. length l > 6) ls"

text \<open>
  Decoding lines one after the other into the same variable, as \<open>CreateChatMessage\<close>
  does: the values of the variable after each line, or the first decoding error.
\<close>

fun decode_into ::
  "(string \<Rightarrow> 'r \<Rightarrow> error + 'r) \<Rightarrow> 'r \<Rightarrow> string list \<Rightarrow> error + 'r list" where
  "decode_into Unmarshal r [] = Inr []"
| "decode_into Unmarshal r (l # ls) =
     (case Unmarshal (drop 6 l) r of
        Inl err \<Rightarrow> Inl err
      | Inr r' \<Rightarrow>
          (case decode_into Unmarshal r' ls of
             Inl err \<Rightarrow> Inl err
           | Inr rs \<Rightarrow> Inr (r' # rs)))"

text \<open>
  The \<open>Completion\<close> field parsed from a line on its own: the line without its first 6
  bytes decoded into a fresh zero value.
\<close>

definition parsed_Completion ::
  "(string \<Rightarrow> 'a ChatMessageResponse_scheme \<Rightarrow> error + 'a ChatMessageResponse_scheme) \<Rightarrow>
   'a ChatMessageResponse_scheme \<Rightarrow> string \<Rightarrow> string" where
  "parsed_Completion Unmarshal zero l =
     (case Unmarshal (drop 6 l) zero of Inl err \<Rightarrow> [] | Inr r \<Rightarrow> Completion r)"

text \<open>
  A line carries its own completion when decoding it sets the \<open>Completion\<close> field
  whatever the variable held before: decoded into any value, it leaves the field it
  leaves in a fresh one. (A JSON object without the field does not: \<open>json.Unmarshal\<close>
  then keeps what the variable had.)
\<close>

definition carries_Completion ::
  "(string \<Rightarrow> 'a ChatMessageResponse_scheme \<Rightarrow> error + 'a ChatMessageResponse_scheme) \<Rightarrow>
   'a ChatMessageResponse_scheme \<Rightarrow> string \<Rightarrow> bool" where
  "carries_Completion Unmarshal zero l =
     (\<forall>r. case Unmarshal (drop 6 l) r of
             Inl err \<Rightarrow> True
           | Inr r' \<Rightarrow>
               (case Unmarshal (drop 6 l) zero of
                  Inl err \<Rightarrow> False
                | Inr x \<Rightarrow> Completion r' = Completion x))"

text \<open>
  The reading of the completion in which every line of the body counts, the final one
  also when no newline ends it, each decoded on its own: the concatenation of the
  \<open>Completion\<close> fields of the lines longer than 6 bytes.
\<close>

definition every_line :: "string \<Rightarrow> string list" where
  "every_line buf =
     terminated_lines buf @ (if last_fragment buf = [] then [] else [last_fragment buf])"

definition stated_Completion ::
  "(string \<Rightarrow> 'a ChatMessageResponse_scheme \<Rightarrow> error + 'a ChatMessageResponse_scheme) \<Rightarrow>
   'a ChatMessageResponse_scheme \<Rightarrow> string \<Rightarrow> string" where
  "stated_Completion Unmarshal zero buf =
     concat (map (parsed_Completion Unmarshal zero) (longer_than_6 (every_line buf)))"

section \<open>Token accounting: results\<close>

lemma sum_tokens_loaded:
  "Tiktoken t = Some enc \<Longrightarrow>
   sum_tokens t acc messages = Inr (acc + of_nat (token_total enc messages))"
proof (induction messages arbitrary: acc)
  case Nil
  show ?case by (simp add: token_total_def)
next
  case (Cons m ms)
  have "Encode t (Content m) = Inr (of_nat (length (enc (Content m))))"
    using Cons.prems by (simp add: Encode_def)
  then show ?case
    using Cons.IH [OF Cons.prems] by (simp add: token_total_def add.assoc)
qed

lemma sint_word_of_nat_small:
  "n < 2 ^ 63 \<Longrightarrow> sint (word_of_nat n :: go_int) = int n"
  by (simp add: signed_of_nat signed_take_bit_int_eq_self)

text \<open>
  C7. For every list of chat messages, \<open>CalculateTotalTokensFromMessages\<close> of a token
  counter whose encoder is loaded returns the sum, over the messages in order, of the
  length of the token encoding of each message's \<open>Content\<close>, in Go's \<open>int\<close> (so without
  wrap-around below \<open>2^63\<close>); for the empty list it returns 0.
\<close>

theorem CalculateTotalTokensFromMessages_sum:
  "CalculateTotalTokensFromMessages t [] = Inr 0 \<and>
   (Tiktoken t = Some enc \<longrightarrow>
      CalculateTotalTokensFromMessages t messages =
        Inr (word_of_nat (\<Sum>m\<leftarrow>messages. length (enc (Content m)))) \<and>
      ((\<Sum>m\<leftarrow>messages. length (enc (Content m))) < 2 ^ 63 \<longrightarrow>
         (\<exists>w. CalculateTotalTokensFromMessages t messages = Inr w \<and>
              sint w = int (\<Sum>m\<leftarrow>messages. length (enc (Content m))))))"
proof -
  have e: "CalculateTotalTokensFromMessages t [] = Inr 0"
    by (simp add: CalculateTotalTokensFromMessages_def)
  have s: "CalculateTotalTokensFromMessages t messages =
        Inr (word_of_nat (\<Sum>m\<leftarrow>messages. length (enc (Content m))))"
    if "Tiktoken t = Some enc"
    using sum_tokens_loaded [OF that, of 0 messages]
    by (simp add: CalculateTotalTokensFromMessages_def token_total_def)
  show ?thesis using e s sint_word_of_nat_small by blast
qed

theorem CalculateTotalTokensFromMessages_sum_witness:
  "Tiktoken \<lparr>Tiktoken = Some (map of_char)\<rparr> = Some (map of_char) \<and>
   (\<Sum>m\<leftarrow>[\<lparr>Role = ''user'', Content = ''hello''\<rparr>, \<lparr>Role = ''assistant'', Content = ''hi''\<rparr>].
       length (map of_char (Content m) :: int list)) < 2 ^ 63 \<and>
   CalculateTotalTokensFromMessages \<lparr>Tiktoken = Some (map of_char)\<rparr>
     [\<lparr>Role = ''user'', Content = ''hello''\<rparr>, \<lparr>Role = ''assistant'', Content = ''hi''\<rparr>] = Inr 7"
  using CalculateTotalTokensFromMessages_sum
    [of "\<lparr>Tiktoken = Some (map of_char)\<rparr>" "map of_char"
        "[\<lparr>Role = ''user'', Content = ''hello''\<rparr>, \<lparr>Role = ''assistant'', Content = ''hi''\<rparr>]"]
  by auto

section \<open>Bard client construction: results\<close>

lemma suffix_dot_iff: "suffix ''.'' tok \<longleftrightarrow> tok \<noteq> [] \<and> last tok = CHR ''.''"
proof
  assume "suffix ''.'' tok"
  then obtain p where "tok = p @ ''.''" by (auto simp: suffix_def)
  then show "tok \<noteq> [] \<and> last tok = CHR ''.''" by simp
next
  assume a: "tok \<noteq> [] \<and> last tok = CHR ''.''"
  then have "tok = butlast tok @ ''.''" by (metis append_butlast_last_id)
  then show "suffix ''.'' tok" by (metis suffixI)
qed

text \<open>
  C8. For every token that is empty or does not end with the character \<open>.\<close>,
  \<open>NewBardClient\<close> returns a nil client and an error and has made no network call; it
  goes on to build the client exactly when the token is non-empty and ends with \<open>.\<close>.
\<close>

theorem NewBardClient_token_guard:
  "(tok = [] \<or> last tok \<noteq> CHR ''.'' \<longrightarrow>
      (\<exists>err. NewBardClient Do FindStringSubmatch tok opts = (None, Some err, []))) \<and>
   (tok \<noteq> [] \<and> last tok = CHR ''.'' \<longrightarrow>
      (\<exists>b err calls. NewBardClient Do FindStringSubmatch tok opts = (Some b, err, calls))) \<and>
   (fst (NewBardClient Do FindStringSubmatch tok opts) \<noteq> None \<longleftrightarrow>
      tok \<noteq> [] \<and> last tok = CHR ''.'')"
  by (auto simp: NewBardClient_def suffix_dot_iff Let_def split: prod.splits)

theorem NewBardClient_token_guard_witness:
  "(''abc'' = [] \<or> last ''abc'' \<noteq> CHR ''.'') \<and>
   (\<exists>err. NewBardClient (\<lambda>u j. Inl (Lib ''unreachable'')) (\<lambda>p b. []) ''abc'' [] = (None, Some err, [])) \<and>
   (''abc.'' \<noteq> [] \<and> last ''abc.'' = CHR ''.'') \<and>
   (\<exists>b err calls. NewBardClient (\<lambda>u j. Inl (Lib ''unreachable'')) (\<lambda>p b. []) ''abc.'' [] = (Some b, err, calls))"
  using NewBardClient_token_guard [of "''abc''" "\<lambda>u j. Inl (Lib ''unreachable'')" "\<lambda>p b. []" "[]"]
        NewBardClient_token_guard [of "''abc.''" "\<lambda>u j. Inl (Lib ''unreachable'')" "\<lambda>p b. []" "[]"]
  by simp

section \<open>Streaming adapters: the shape of a run\<close>

lemma count_shape:
  "length (filter is_errChan (map dataChan ds @ [errChan e])) = 1"
  by (induction ds) simp_all

lemma last_shape: "is_errChan (last (map dataChan ds @ [errChan e]))"
  by simp

lemma events_loop_shape:
  "\<exists>ds e. events_loop D T sb evs = map dataChan ds @ [errChan e]"
proof (induction D T sb evs rule: events_loop.induct)
  case (1 D T sb)
  have "events_loop D T sb [] = map dataChan [] @ [errChan EOF]" by simp
  then show ?case by blast
next
  case (2 D T sb bytes events)
  show ?case
  proof (cases "D bytes")
    case (Inl err)
    then have "events_loop D T sb (ResponseStreamMemberChunk bytes # events) = map dataChan [] @ [errChan err]"
      by simp
    then show ?thesis by blast
  next
    case (Inr resp)
    from 2 [OF Inr] obtain ds e where
      "events_loop D T (sb @ BedrockResponse.Completion resp) events = map dataChan ds @ [errChan e]" by blast
    with Inr have "events_loop D T sb (ResponseStreamMemberChunk bytes # events) =
        map dataChan (T resp # ds) @ [errChan e]" by simp
    then show ?thesis by blast
  qed
next
  case (3 D T sb events)
  have "events_loop D T sb (UnknownUnionMember # events) =
     map dataChan [] @ [errChan (Errorf ''unknown event type: %T'' [ArgType ''*types.UnknownUnionMember''])]"
    by simp
  then show ?case by blast
next
  case (4 D T sb ty events)
  have "events_loop D T sb (OtherMember ty # events) =
     map dataChan [] @ [errChan (Errorf ''unknown event type: %T'' [ArgType ty])]"
    by simp
  then show ?case by blast
qed

lemma claude_stream_shape:
  "\<exists>ds e. snd (claude_CreateChatCompletionStream M I D T req) = map dataChan ds @ [errChan e]"
proof (cases "I \<lparr>ModelId = Model req, InputBody = M req, ContentType = ''application/json''\<rparr>")
  case (Inl err)
  then have "snd (claude_CreateChatCompletionStream M I D T req) = map dataChan [] @ [errChan err]"
    by (simp add: claude_CreateChatCompletionStream_def)
  then show ?thesis by blast
next
  case (Inr out)
  then have "snd (claude_CreateChatCompletionStream M I D T req) = events_loop D T [] (Events out)"
    by (simp add: claude_CreateChatCompletionStream_def)
  then show ?thesis using events_loop_shape by metis
qed

lemma stream_loop_shape:
  "\<exists>ds e. CreateChatMessageStream_loop U z buf c = map dataChan ds @ [errChan e]"
proof (induction U z buf c rule: CreateChatMessageStream_loop.induct)
  case (1 U z buf c)
  obtain line rest found where rb: "ReadBytes (CHR 0x0A) buf = (line, rest, found)"
    by (cases "ReadBytes (CHR 0x0A) buf") auto
  show ?case
  proof (cases found)
    case False
    with rb have "CreateChatMessageStream_loop U z buf c =
        map dataChan [] @ [errChan (if c = EOF then EOF
           else Errorf ''createChatMessageStream read response body err: %v'' [ArgErr c])]"
      by simp
    then show ?thesis by blast
  next
    case True
    show ?thesis
    proof (cases "length line > 6")
      case long: True
      show ?thesis
      proof (cases "U (drop 6 line) z")
        case (Inl err)
        with rb True long have "CreateChatMessageStream_loop U z buf c =
          map dataChan [] @ [errChan (Errorf ''createChatMessageStream unmarshal response body err: %v'' [ArgErr err])]"
          by simp
        then show ?thesis by blast
      next
        case (Inr r)
        from "1.IH"(1) [OF rb [symmetric] refl] True long Inr
        obtain ds e where "CreateChatMessageStream_loop U z rest c = map dataChan ds @ [errChan e]"
          by auto
        with rb True long Inr have "CreateChatMessageStream_loop U z buf c = map dataChan (r # ds) @ [errChan e]"
          by simp
        then show ?thesis by blast
      qed
    next
      case short: False
      from "1.IH"(2) [OF rb [symmetric] refl] True short
      obtain ds e where "CreateChatMessageStream_loop U z rest c = map dataChan ds @ [errChan e]"
        by auto
      with rb True short have "CreateChatMessageStream_loop U z buf c = map dataChan ds @ [errChan e]"
        by simp
      then show ?thesis by blast
    qed
  qed
qed

lemma relay_loop_returned:
  "snd (relay_loop T inner) = list_ex is_innerErrChan inner"
  by (induction T inner rule: relay_loop.induct) (auto split: prod.splits)

lemma relay_loop_shape:
  "(snd (relay_loop T inner) \<longrightarrow> (\<exists>ds e. fst (relay_loop T inner) = map dataChan ds @ [errChan e])) \<and>
   (\<not> snd (relay_loop T inner) \<longrightarrow> (\<exists>ds. fst (relay_loop T inner) = map dataChan ds))"
proof (induction T inner rule: relay_loop.induct)
  case (1 T)
  have "fst (relay_loop T []) = map dataChan []" by simp
  then show ?case by simp
next
  case (2 T data rest)
  obtain sends returned where r: "relay_loop T rest = (sends, returned)"
    by (cases "relay_loop T rest") auto
  then have step: "relay_loop T (innerDataChan data # rest) = (dataChan (T data) # sends, returned)"
    by simp
  show ?case
  proof (cases returned)
    case True
    with 2 r obtain ds e where "sends = map dataChan ds @ [errChan e]" by auto
    then have "dataChan (T data) # sends = map dataChan (T data # ds) @ [errChan e]" by simp
    with step True show ?thesis by (metis fst_conv snd_conv)
  next
    case False
    with 2 r obtain ds where "sends = map dataChan ds" by auto
    then have "dataChan (T data) # sends = map dataChan (T data # ds)" by simp
    with step False show ?thesis by (metis fst_conv snd_conv)
  qed
next
  case (3 T err rest)
  have "fst (relay_loop T (innerErrChan err # rest)) = map dataChan [] @ [errChan err]" by simp
  then show ?case by auto
qed

lemma count_data: "length (filter is_errChan (map dataChan ds)) = 0"
  by (induction ds) simp_all

lemma together_stream_result:
  "\<exists>sends returned. result (together_CreateChatCompletionStream F M Do P T c req) = (sends, returned) \<and>
     ((\<exists>ds e. sends = map dataChan ds @ [errChan e] \<and> returned) \<or>
      (\<exists>ds. sends = map dataChan ds \<and> \<not> returned))"
proof (cases "M (F (req\<lparr>Stream := True\<rparr>))")
  case (Inl err)
  then have "result (together_CreateChatCompletionStream F M Do P T c req) =
     (map dataChan [] @ [errChan (Errorf ''create chat completion stream marshal request error: %w'' [ArgErr err])], True)"
    by (simp add: together_CreateChatCompletionStream_def)
  then show ?thesis by blast
next
  case (Inr reqBody)
  show ?thesis
  proof (cases "Do (completions_request c reqBody)")
    case (Inl err)
    with Inr have "result (together_CreateChatCompletionStream F M Do P T c req) =
       (map dataChan [] @ [errChan (Errorf ''create chat completion stream error: %w'' [ArgErr err])], True)"
      by (simp add: together_CreateChatCompletionStream_def)
    then show ?thesis by blast
  next
    case resp: (Inr resp)
    with Inr have eq: "result (together_CreateChatCompletionStream F M Do P T c req) = relay_loop T (P resp)"
      by (simp add: together_CreateChatCompletionStream_def)
    obtain sends returned where r: "relay_loop T (P resp) = (sends, returned)"
      by (cases "relay_loop T (P resp)") auto
    from relay_loop_shape [of T "P resp"] r
    have "(\<exists>ds e. sends = map dataChan ds @ [errChan e] \<and> returned) \<or>
      (\<exists>ds. sends = map dataChan ds \<and> \<not> returned)"
      by (cases returned) auto
    with eq r show ?thesis by simp
  qed
qed

lemma together_stream_returns:
  assumes "\<forall>resp. list_ex is_innerErrChan (P resp)"
  shows "snd (result (together_CreateChatCompletionStream F M Do P T c req))"
proof (cases "M (F (req\<lparr>Stream := True\<rparr>))")
  case (Inl err)
  then show ?thesis by (simp add: together_CreateChatCompletionStream_def)
next
  case (Inr reqBody)
  show ?thesis
  proof (cases "Do (completions_request c reqBody)")
    case (Inl err)
    with Inr show ?thesis by (simp add: together_CreateChatCompletionStream_def)
  next
    case resp: (Inr resp)
    with Inr have "result (together_CreateChatCompletionStream F M Do P T c req) = relay_loop T (P resp)"
      by (simp add: together_CreateChatCompletionStream_def)
    then show ?thesis using assms relay_loop_returned [of T "P resp"] by simp
  qed
qed

lemma events_loop_well_formed:
  "\<forall>b\<in>set chunks. D b = Inr (R b) \<Longrightarrow>
   events_loop D T sb (map ResponseStreamMemberChunk chunks) =
     map (\<lambda>b. dataChan (T (R b))) chunks @ [errChan EOF]"
  by (induction chunks arbitrary: sb) simp_all

lemma relay_loop_data_then_err:
  "relay_loop T (map innerDataChan ds @ innerErrChan e # rest) =
     (map (\<lambda>d. dataChan (T d)) ds @ [errChan e], True)"
  by (induction ds) simp_all

section \<open>Streaming adapters: results\<close>

text \<open>
  C1. Every run of a streaming operation delivers exactly one terminal signal (\<open>io.EOF\<close>
  or an error) on the error channel, as its last send, so never a second one. This holds
  for the Bedrock adapter whatever the SDK call and the event stream yield (a stream cut
  by a read failure included) and for the Claude web client whatever the body and its
  closing error are. The Together adapter sends at most one terminal signal and returns
  exactly when it has sent it; it sends exactly one whenever \<open>ParseSSE\<close> publishes an
  error (or \<open>io.EOF\<close>) on its inner error channel.
\<close>

theorem exactly_one_terminal_signal:
  "(length (filter is_errChan (snd (claude_CreateChatCompletionStream M I D T req))) = 1 \<and>
    is_errChan (last (snd (claude_CreateChatCompletionStream M I D T req)))) \<and>
   (length (filter is_errChan (CreateChatMessageStream U z call)) = 1 \<and>
    is_errChan (last (CreateChatMessageStream U z call))) \<and>
   (length (filter is_errChan (fst (result (together_CreateChatCompletionStream F Mt Do P Tt c treq)))) \<le> 1 \<and>
    (snd (result (together_CreateChatCompletionStream F Mt Do P Tt c treq)) \<longleftrightarrow>
       length (filter is_errChan (fst (result (together_CreateChatCompletionStream F Mt Do P Tt c treq)))) = 1)) \<and>
   ((\<forall>resp. list_ex is_innerErrChan (P resp)) \<longrightarrow>
      length (filter is_errChan (fst (result (together_CreateChatCompletionStream F Mt Do P Tt c treq)))) = 1 \<and>
      is_errChan (last (fst (result (together_CreateChatCompletionStream F Mt Do P Tt c treq)))) \<and>
      snd (result (together_CreateChatCompletionStream F Mt Do P Tt c treq)))"
proof -
  obtain ds e where a: "snd (claude_CreateChatCompletionStream M I D T req) = map dataChan ds @ [errChan e]"
    using claude_stream_shape by blast
  have A: "length (filter is_errChan (snd (claude_CreateChatCompletionStream M I D T req))) = 1 \<and>
    is_errChan (last (snd (claude_CreateChatCompletionStream M I D T req)))"
    unfolding a using count_shape last_shape by blast
  obtain ds' e' where b: "CreateChatMessageStream U z call = map dataChan ds' @ [errChan e']"
  proof (cases call)
    case (fields resp statusCode err)
    show ?thesis
    proof (cases err)
      case (Some er)
      with fields have "CreateChatMessageStream U z call = map dataChan [] @
        [errChan (Errorf ''CreateChatMessage failed with status_code %d, err: %v'' [ArgInt statusCode, ArgErr er])]"
        by (simp add: CreateChatMessageStream_def)
      then show ?thesis using that by blast
    next
      case None
      show ?thesis
      proof (cases "statusCode \<ge> 400")
        case True
        with None fields have "CreateChatMessageStream U z call = map dataChan [] @
          [errChan (Errorf ''CreateChatMessage status_code %d err: %v'' [ArgInt statusCode, ArgNil])]"
          by (simp add: CreateChatMessageStream_def)
        then show ?thesis using that by blast
      next
        case False
        with None fields have "CreateChatMessageStream U z call =
           CreateChatMessageStream_loop U z (content resp) (closing resp)"
          by (simp add: CreateChatMessageStream_def)
        then show ?thesis using that stream_loop_shape by metis
      qed
    qed
  qed
  have B: "length (filter is_errChan (CreateChatMessageStream U z call)) = 1 \<and>
    is_errChan (last (CreateChatMessageStream U z call))"
    unfolding b using count_shape last_shape by blast
  let ?r = "result (together_CreateChatCompletionStream F Mt Do P Tt c treq)"
  obtain sends returned where r: "?r = (sends, returned)"
    and alt: "(\<exists>ds e. sends = map dataChan ds @ [errChan e] \<and> returned) \<or>
      (\<exists>ds. sends = map dataChan ds \<and> \<not> returned)"
    using together_stream_result [of F Mt Do P Tt c treq] by blast
  have C: "length (filter is_errChan (fst ?r)) \<le> 1 \<and>
      (snd ?r \<longleftrightarrow> length (filter is_errChan (fst ?r)) = 1)"
    using alt unfolding r by (auto simp: count_shape count_data simp del: filter_append)
  have D: "length (filter is_errChan (fst ?r)) = 1 \<and> is_errChan (last (fst ?r)) \<and> snd ?r"
    if h: "\<forall>resp. list_ex is_innerErrChan (P resp)"
  proof -
    have "snd ?r" using together_stream_returns [OF h] by blast
    with r alt obtain ds e where "sends = map dataChan ds @ [errChan e]" "returned" by auto
    then show ?thesis unfolding r using count_shape [of ds e] last_shape [of ds e] by simp
  qed
  show ?thesis using A B C D by blast
qed

theorem exactly_one_terminal_signal_witness:
  "(\<forall>resp::unit. list_ex is_innerErrChan [innerDataChan ''a'', innerErrChan EOF]) \<and>
   length (filter is_errChan (fst (result (together_CreateChatCompletionStream
      (\<lambda>r. Stream r) (\<lambda>t. Inr ''{}'') (\<lambda>r. Inr ()) (\<lambda>resp. [innerDataChan ''a'', innerErrChan EOF]) (\<lambda>d. d)
      \<lparr>baseUrl = ''https://api.together.xyz'', Apikey = ''k''\<rparr>
      \<lparr>Model = ''m'', Stream = False\<rparr>)))) = 1 \<and>
   length (filter is_errChan (snd (claude_CreateChatCompletionStream
      (\<lambda>r. Model r)
      (\<lambda>i. Inr \<lparr>Events = [ResponseStreamMemberChunk ''x''], Err = Some (Lib ''connection reset by peer'')\<rparr>)
      (\<lambda>b. Inr \<lparr>BedrockResponse.Completion = b\<rparr>) BedrockResponse.Completion
      \<lparr>Model = ''anthropic.claude-v2'', Stream = True\<rparr>))) = 1 \<and>
   length (filter is_errChan (CreateChatMessageStream
      (\<lambda>p r. Inr (r\<lparr>Completion := p\<rparr>)) \<lparr>Completion = []\<rparr>
      (\<lparr>content = ''data: hello'' @ [CHR 0x0A] @ ''data: wor'', closing = Lib ''unexpected EOF''\<rparr>, 200, None))) = 1"
  using exactly_one_terminal_signal
    [where P = "\<lambda>resp::unit. [innerDataChan ''a'', innerErrChan EOF]"
       and F = "\<lambda>r. Stream r" and Mt = "\<lambda>t. Inr ''{}''" and Do = "\<lambda>r. Inr ()" and Tt = "\<lambda>d. d"
       and c = "\<lparr>baseUrl = ''https://api.together.xyz'', Apikey = ''k''\<rparr>"
       and treq = "\<lparr>Model = ''m'', Stream = False\<rparr>"
       and M = "\<lambda>r. Model r"
       and I = "\<lambda>i. Inr \<lparr>Events = [ResponseStreamMemberChunk ''x''], Err = Some (Lib ''connection reset by peer'')\<rparr>"
       and D = "\<lambda>b. Inr \<lparr>BedrockResponse.Completion = b\<rparr>" and T = BedrockResponse.Completion
       and req = "\<lparr>Model = ''anthropic.claude-v2'', Stream = True\<rparr>"
       and U = "\<lambda>p r. Inr (r\<lparr>Completion := p\<rparr>)" and z = "\<lparr>Completion = []\<rparr>"
       and call = "(\<lparr>content = ''data: hello'' @ [CHR 0x0A] @ ''data: wor'', closing = Lib ''unexpected EOF''\<rparr>, 200, None)"]
  by simp

text \<open>
  C2. The output of a run is an ordered sequence of data records, all sent on the data
  channel, followed by the terminal signal, which is sent on the error channel and is the
  last send: no data record comes after it. When every event of a Bedrock stream is a
  chunk that decodes, the terminal signal is the end-of-stream signal \<open>io.EOF\<close>. For the
  Together adapter the run either ends with the terminal signal or, if \<open>ParseSSE\<close> never
  publishes an error, consists of data records only and does not return.
\<close>

theorem records_then_terminal_signal:
  "(\<exists>ds e. snd (claude_CreateChatCompletionStream M I D T req) = map dataChan ds @ [errChan e]) \<and>
   ((\<exists>ds e. result (together_CreateChatCompletionStream F Mt Do P Tt c treq) =
              (map dataChan ds @ [errChan e], True)) \<or>
    (\<exists>ds. result (together_CreateChatCompletionStream F Mt Do P Tt c treq) = (map dataChan ds, False))) \<and>
   ((\<forall>resp. list_ex is_innerErrChan (P resp)) \<longrightarrow>
      (\<exists>ds e. result (together_CreateChatCompletionStream F Mt Do P Tt c treq) =
              (map dataChan ds @ [errChan e], True))) \<and>
   (I \<lparr>ModelId = Model req, InputBody = M req, ContentType = ''application/json''\<rparr> = Inr out \<and>
    Events out = map ResponseStreamMemberChunk chunks \<and> (\<forall>b\<in>set chunks. \<exists>r. D b = Inr r) \<longrightarrow>
      (\<exists>ds. snd (claude_CreateChatCompletionStream M I D T req) = map dataChan ds @ [errChan EOF]))"
proof -
  let ?r = "result (together_CreateChatCompletionStream F Mt Do P Tt c treq)"
  obtain sends returned where r: "?r = (sends, returned)"
    and alt: "(\<exists>ds e. sends = map dataChan ds @ [errChan e] \<and> returned) \<or>
      (\<exists>ds. sends = map dataChan ds \<and> \<not> returned)"
    using together_stream_result [of F Mt Do P Tt c treq] by blast
  have B: "(\<exists>ds e. ?r = (map dataChan ds @ [errChan e], True)) \<or> (\<exists>ds. ?r = (map dataChan ds, False))"
    using alt unfolding r by auto
  have C: "\<exists>ds e. ?r = (map dataChan ds @ [errChan e], True)"
    if h: "\<forall>resp. list_ex is_innerErrChan (P resp)"
  proof -
    have "snd ?r" using together_stream_returns [OF h] by blast
    with B show ?thesis by auto
  qed
  have E: "\<exists>ds. snd (claude_CreateChatCompletionStream M I D T req) = map dataChan ds @ [errChan EOF]"
    if i: "I \<lparr>ModelId = Model req, InputBody = M req, ContentType = ''application/json''\<rparr> = Inr out"
      and ev: "Events out = map ResponseStreamMemberChunk chunks"
      and wf: "\<forall>b\<in>set chunks. \<exists>r. D b = Inr r"
  proof -
    from wf have "\<forall>b\<in>set chunks. D b = Inr (projr (D b))" by auto
    from events_loop_well_formed [OF this, of T "[]"] i ev
    have "snd (claude_CreateChatCompletionStream M I D T req) =
       map dataChan (map (\<lambda>b. T (projr (D b))) chunks) @ [errChan EOF]"
      by (simp add: claude_CreateChatCompletionStream_def comp_def)
    then show ?thesis by blast
  qed
  show ?thesis using claude_stream_shape [of M I D T req] B C E by blast
qed

theorem records_then_terminal_signal_witness:
  "(\<forall>resp::unit. list_ex is_innerErrChan [innerDataChan ''a'', innerDataChan ''b'', innerErrChan EOF]) \<and>
   (\<exists>ds e. result (together_CreateChatCompletionStream
      (\<lambda>r. Stream r) (\<lambda>t. Inr ''{}'') (\<lambda>r. Inr ())
      (\<lambda>resp. [innerDataChan ''a'', innerDataChan ''b'', innerErrChan EOF]) (\<lambda>d. d)
      \<lparr>baseUrl = ''https://api.together.xyz'', Apikey = ''k''\<rparr>
      \<lparr>Model = ''m'', Stream = False\<rparr>) = (map dataChan ds @ [errChan e], True)) \<and>
   list_all (\<lambda>b. \<exists>r. (Inr \<lparr>BedrockResponse.Completion = b\<rparr> :: error + BedrockResponse) = Inr r)
     [''x'', ''y''] \<and>
   (\<exists>ds. snd (claude_CreateChatCompletionStream
      (\<lambda>r. Model r)
      (\<lambda>i. Inr \<lparr>Events = map ResponseStreamMemberChunk [''x'', ''y''], Err = None\<rparr>)
      (\<lambda>b. Inr \<lparr>BedrockResponse.Completion = b\<rparr>) BedrockResponse.Completion
      \<lparr>Model = ''anthropic.claude-v2'', Stream = True\<rparr>) = map dataChan ds @ [errChan EOF])"
  using records_then_terminal_signal
    [where P = "\<lambda>resp::unit. [innerDataChan ''a'', innerDataChan ''b'', innerErrChan EOF]"
       and F = "\<lambda>r. Stream r" and Mt = "\<lambda>t. Inr ''{}''" and Do = "\<lambda>r. Inr ()" and Tt = "\<lambda>d. d"
       and c = "\<lparr>baseUrl = ''https://api.together.xyz'', Apikey = ''k''\<rparr>"
       and treq = "\<lparr>Model = ''m'', Stream = False\<rparr>"
       and M = "\<lambda>r. Model r"
       and I = "\<lambda>i. Inr \<lparr>Events = map ResponseStreamMemberChunk [''x'', ''y''], Err = None\<rparr>"
       and D = "\<lambda>b. Inr \<lparr>BedrockResponse.Completion = b\<rparr>" and T = BedrockResponse.Completion
       and req = "\<lparr>Model = ''anthropic.claude-v2'', Stream = True\<rparr>"
       and out = "\<lparr>Events = map ResponseStreamMemberChunk [''x'', ''y''], Err = None\<rparr>"
       and chunks = "[''x'', ''y'']"]
  by simp

text \<open>
  C5. When every upstream chunk is well formed and the stream is read to its end, the
  adapter forwards exactly one data record per chunk, in the order of the chunks, and
  then \<open>io.EOF\<close>: for Bedrock the records are the conversions of the decoded chunks, for
  Together the conversions of the records published by \<open>ParseSSE\<close>.
\<close>

theorem one_record_per_chunk_in_order:
  "(I \<lparr>ModelId = Model req, InputBody = M req, ContentType = ''application/json''\<rparr> = Inr out \<and>
    Events out = map ResponseStreamMemberChunk chunks \<and> (\<forall>b\<in>set chunks. D b = Inr (R b)) \<longrightarrow>
      snd (claude_CreateChatCompletionStream M I D T req) =
        map (\<lambda>b. dataChan (T (R b))) chunks @ [errChan EOF]) \<and>
   (Mt (F (treq\<lparr>Stream := True\<rparr>)) = Inr reqBody \<and> Do (completions_request c reqBody) = Inr resp \<and>
    P resp = map innerDataChan ds @ [innerErrChan EOF] \<longrightarrow>
      result (together_CreateChatCompletionStream F Mt Do P Tt c treq) =
        (map (\<lambda>d. dataChan (Tt d)) ds @ [errChan EOF], True))"
proof -
  have A: "snd (claude_CreateChatCompletionStream M I D T req) =
        map (\<lambda>b. dataChan (T (R b))) chunks @ [errChan EOF]"
    if "I \<lparr>ModelId = Model req, InputBody = M req, ContentType = ''application/json''\<rparr> = Inr out"
      and "Events out = map ResponseStreamMemberChunk chunks"
      and wf: "\<forall>b\<in>set chunks. D b = Inr (R b)"
    using events_loop_well_formed [OF wf, of T "[]"] that(1,2)
    by (simp add: claude_CreateChatCompletionStream_def)
  have B: "result (together_CreateChatCompletionStream F Mt Do P Tt c treq) =
        (map (\<lambda>d. dataChan (Tt d)) ds @ [errChan EOF], True)"
    if "Mt (F (treq\<lparr>Stream := True\<rparr>)) = Inr reqBody"
      and "Do (completions_request c reqBody) = Inr resp"
      and "P resp = map innerDataChan ds @ [innerErrChan EOF]"
    using that relay_loop_data_then_err [of Tt ds EOF "[]"]
    by (simp add: together_CreateChatCompletionStream_def)
  show ?thesis using A B by blast
qed

theorem one_record_per_chunk_in_order_witness:
  "list_all (\<lambda>b. (Inr \<lparr>BedrockResponse.Completion = b\<rparr> :: error + BedrockResponse) =
        Inr \<lparr>BedrockResponse.Completion = b\<rparr>) [''x'', ''y'', ''x''] \<and>
   snd (claude_CreateChatCompletionStream
      (\<lambda>r. Model r)
      (\<lambda>i. Inr \<lparr>Events = map ResponseStreamMemberChunk [''x'', ''y'', ''x''], Err = None\<rparr>)
      (\<lambda>b. Inr \<lparr>BedrockResponse.Completion = b\<rparr>) BedrockResponse.Completion
      \<lparr>Model = ''anthropic.claude-v2'', Stream = True\<rparr>) =
     [dataChan ''x'', dataChan ''y'', dataChan ''x'', errChan EOF] \<and>
   result (together_CreateChatCompletionStream
      (\<lambda>r. Stream r) (\<lambda>t. Inr ''{}'') (\<lambda>r. Inr ())
      (\<lambda>resp. map innerDataChan [''a'', ''b''] @ [innerErrChan EOF]) (\<lambda>d. d)
      \<lparr>baseUrl = ''https://api.together.xyz'', Apikey = ''k''\<rparr>
      \<lparr>Model = ''m'', Stream = False\<rparr>) = ([dataChan ''a'', dataChan ''b'', errChan EOF], True)"
  using one_record_per_chunk_in_order
    [where P = "\<lambda>resp::unit. map innerDataChan [''a'', ''b''] @ [innerErrChan EOF]"
       and F = "\<lambda>r. Stream r" and Mt = "\<lambda>t. Inr ''{}''" and Do = "\<lambda>r. Inr ()" and Tt = "\<lambda>d. d"
       and c = "\<lparr>baseUrl = ''https://api.together.xyz'', Apikey = ''k''\<rparr>"
       and treq = "\<lparr>Model = ''m'', Stream = False\<rparr>"
       and reqBody = "''{}''" and resp = "()" and ds = "[''a'', ''b'']"
       and M = "\<lambda>r. Model r"
       and I = "\<lambda>i. Inr \<lparr>Events = map ResponseStreamMemberChunk [''x'', ''y'', ''x''], Err = None\<rparr>"
       and D = "\<lambda>b. Inr \<lparr>BedrockResponse.Completion = b\<rparr>" and T = BedrockResponse.Completion
       and R = "\<lambda>b. \<lparr>BedrockResponse.Completion = b\<rparr>"
       and req = "\<lparr>Model = ''anthropic.claude-v2'', Stream = True\<rparr>"
       and out = "\<lparr>Events = map ResponseStreamMemberChunk [''x'', ''y'', ''x''], Err = None\<rparr>"
       and chunks = "[''x'', ''y'', ''x'']"]
  by simp

section \<open>Together adapter: the Stream flag\<close>

text \<open>
  C9. The Together adapter overrides the caller's \<open>Stream\<close> flag before it translates the
  request: \<open>CreateChatCompletion\<close> translates the request with \<open>Stream\<close> set to false and
  \<open>CreateChatCompletionStream\<close> with \<open>Stream\<close> set to true, whatever the flag of the input
  was, and the body of the request sent is the marshalled translation. So a translation
  that carries the flag over yields a provider request with the flag false, respectively
  true.
\<close>

theorem together_overrides_Stream:
  "togReq (together_CreateChatCompletion F M Do Dec T c req) = F (req\<lparr>Stream := False\<rparr>) \<and>
   togReq (together_CreateChatCompletionStream F M Do' P T' c req) = F (req\<lparr>Stream := True\<rparr>) \<and>
   together_CreateChatCompletion F M Do Dec T c (req\<lparr>Stream := b\<rparr>) =
     together_CreateChatCompletion F M Do Dec T c req \<and>
   together_CreateChatCompletionStream F M Do' P T' c (req\<lparr>Stream := b\<rparr>) =
     together_CreateChatCompletionStream F M Do' P T' c req \<and>
   (M (F (req\<lparr>Stream := False\<rparr>)) = Inr body \<longrightarrow>
      sent (together_CreateChatCompletion F M Do Dec T c req) = [completions_request c body]) \<and>
   (M (F (req\<lparr>Stream := True\<rparr>)) = Inr body' \<longrightarrow>
      sent (together_CreateChatCompletionStream F M Do' P T' c req) = [completions_request c body']) \<and>
   ((\<forall>r. stream_flag (F r) = Stream r) \<longrightarrow>
      \<not> stream_flag (togReq (together_CreateChatCompletion F M Do Dec T c req)) \<and>
      stream_flag (togReq (together_CreateChatCompletionStream F M Do' P T' c req)))"
proof -
  have 1: "togReq (together_CreateChatCompletion F M Do Dec T c req) = F (req\<lparr>Stream := False\<rparr>)"
    by (simp add: together_CreateChatCompletion_def Let_def split: sum.splits)
  have 2: "togReq (together_CreateChatCompletionStream F M Do' P T' c req) = F (req\<lparr>Stream := True\<rparr>)"
    by (simp add: together_CreateChatCompletionStream_def Let_def split: sum.splits)
  have 3: "together_CreateChatCompletion F M Do Dec T c (req\<lparr>Stream := b\<rparr>) =
     together_CreateChatCompletion F M Do Dec T c req"
    by (simp add: together_CreateChatCompletion_def)
  have 4: "together_CreateChatCompletionStream F M Do' P T' c (req\<lparr>Stream := b\<rparr>) =
     together_CreateChatCompletionStream F M Do' P T' c req"
    by (simp add: together_CreateChatCompletionStream_def)
  have 5: "sent (together_CreateChatCompletion F M Do Dec T c req) = [completions_request c body]"
    if "M (F (req\<lparr>Stream := False\<rparr>)) = Inr body"
    using that by (simp add: together_CreateChatCompletion_def Let_def split: sum.splits)
  have 6: "sent (together_CreateChatCompletionStream F M Do' P T' c req) = [completions_request c body']"
    if "M (F (req\<lparr>Stream := True\<rparr>)) = Inr body'"
    using that by (simp add: together_CreateChatCompletionStream_def Let_def split: sum.splits)
  show ?thesis using 1 2 3 4 5 6 by simp
qed

theorem together_overrides_Stream_witness:
  "(\<forall>r::ChatCompletionRequest. Stream ((\<lambda>r. r) r) = Stream r) \<and>
   (if Stream (\<lparr>Model = ''m'', Stream = True\<rparr>\<lparr>Stream := False\<rparr>) then Inr ''stream=true'' else Inr ''stream=false'')
     = (Inr ''stream=false'' :: error + string) \<and>
   (if Stream (\<lparr>Model = ''m'', Stream = True\<rparr>\<lparr>Stream := True\<rparr>) then Inr ''stream=true'' else Inr ''stream=false'')
     = (Inr ''stream=true'' :: error + string) \<and>
   \<not> Stream (togReq (together_CreateChatCompletion (\<lambda>r. r)
        (\<lambda>t. if Stream t then Inr ''stream=true'' else Inr ''stream=false'')
        (\<lambda>h. Inr ()) (\<lambda>h. Inr ''ok'') (\<lambda>u. u)
        \<lparr>baseUrl = ''https://api.together.xyz'', Apikey = ''k''\<rparr> \<lparr>Model = ''m'', Stream = True\<rparr>)) \<and>
   Stream (togReq (together_CreateChatCompletionStream (\<lambda>r. r)
        (\<lambda>t. if Stream t then Inr ''stream=true'' else Inr ''stream=false'')
        (\<lambda>h. Inr ()) (\<lambda>h. [innerErrChan EOF]) (\<lambda>u::string. u)
        \<lparr>baseUrl = ''https://api.together.xyz'', Apikey = ''k''\<rparr> \<lparr>Model = ''m'', Stream = True\<rparr>)) \<and>
   map ReqBody (sent (together_CreateChatCompletion (\<lambda>r. r)
        (\<lambda>t. if Stream t then Inr ''stream=true'' else Inr ''stream=false'')
        (\<lambda>h. Inr ()) (\<lambda>h. Inr ''ok'') (\<lambda>u. u)
        \<lparr>baseUrl = ''https://api.together.xyz'', Apikey = ''k''\<rparr> \<lparr>Model = ''m'', Stream = True\<rparr>))
     = [''stream=false'']"
  using together_overrides_Stream
    [where F = "\<lambda>r::ChatCompletionRequest. r"
       and M = "\<lambda>t. if Stream t then Inr ''stream=true'' else Inr ''stream=false''"
       and Do = "\<lambda>h. Inr ()" and Dec = "\<lambda>h. Inr ''ok''" and T = "\<lambda>u. u"
       and Do' = "\<lambda>h. Inr ()" and P = "\<lambda>h. [innerErrChan EOF]" and T' = "\<lambda>u::string. u"
       and c = "\<lparr>baseUrl = ''https://api.together.xyz'', Apikey = ''k''\<rparr>"
       and req = "\<lparr>Model = ''m'', Stream = True\<rparr>" and b = False
       and body = "''stream=false''" and body' = "''stream=true''" and stream_flag = Stream]
  by (simp add: completions_request_def)

section \<open>Claude web client: the completion of a whole message\<close>

declare CreateChatMessage_loop.simps [simp del]
declare terminated_lines.simps [simp del]
declare last_fragment.simps [simp del]

lemma terminated_lines_found:
  "ReadBytes (CHR 0x0A) buf = (line, rest, True) \<Longrightarrow>
   terminated_lines buf = line # terminated_lines rest"
  by (subst terminated_lines.simps) simp

lemma terminated_lines_not_found:
  "ReadBytes (CHR 0x0A) buf = (line, rest, False) \<Longrightarrow> terminated_lines buf = []"
  by (subst terminated_lines.simps) simp

lemma loop_not_found:
  "ReadBytes (CHR 0x0A) buf = (line, rest, False) \<Longrightarrow>
   CreateChatMessage_loop U r sb buf e =
     (if e = EOF then Inr (r\<lparr>Completion := sb\<rparr>)
      else Inl (Errorf ''CreateChatMessage read response body err: %v'' [ArgErr e]))"
  by (subst CreateChatMessage_loop.simps) simp

lemma loop_short:
  "ReadBytes (CHR 0x0A) buf = (line, rest, True) \<Longrightarrow> \<not> length line > 6 \<Longrightarrow>
   CreateChatMessage_loop U r sb buf e = CreateChatMessage_loop U r sb rest e"
  by (subst CreateChatMessage_loop.simps) simp

lemma loop_long_err:
  "ReadBytes (CHR 0x0A) buf = (line, rest, True) \<Longrightarrow> length line > 6 \<Longrightarrow>
   U (drop 6 line) r = Inl err \<Longrightarrow>
   CreateChatMessage_loop U r sb buf e =
     Inl (Errorf ''CreateChatMessage unmarshal response body err: %v'' [ArgErr err])"
  by (subst CreateChatMessage_loop.simps) simp

lemma loop_long_ok:
  "ReadBytes (CHR 0x0A) buf = (line, rest, True) \<Longrightarrow> length line > 6 \<Longrightarrow>
   U (drop 6 line) r = Inr r' \<Longrightarrow>
   CreateChatMessage_loop U r sb buf e = CreateChatMessage_loop U r' (sb @ Completion r') rest e"
  by (subst CreateChatMessage_loop.simps) simp

lemma CreateChatMessage_loop_eq:
  "CreateChatMessage_loop U r sb buf e =
     (case decode_into U r (longer_than_6 (terminated_lines buf)) of
        Inl err \<Rightarrow> Inl (Errorf ''CreateChatMessage unmarshal response body err: %v'' [ArgErr err])
      | Inr rs \<Rightarrow>
          if e = EOF then Inr ((last (r # rs))\<lparr>Completion := sb @ concat (map Completion rs)\<rparr>)
          else Inl (Errorf ''CreateChatMessage read response body err: %v'' [ArgErr e]))"
proof (induction U r sb buf e rule: CreateChatMessage_loop.induct)
  case (1 U r sb buf e)
  obtain line rest found where rb: "ReadBytes (CHR 0x0A) buf = (line, rest, found)"
    by (cases "ReadBytes (CHR 0x0A) buf") auto
  show ?case
  proof (cases found)
    case False
    with rb have rb': "ReadBytes (CHR 0x0A) buf = (line, rest, False)" by simp
    show ?thesis
      by (simp add: loop_not_found [OF rb'] terminated_lines_not_found [OF rb'] longer_than_6_def)
  next
    case True
    with rb have rb': "ReadBytes (CHR 0x0A) buf = (line, rest, True)" by simp
    note tl = terminated_lines_found [OF rb']
    show ?thesis
    proof (cases "length line > 6")
      case long: True
      show ?thesis
      proof (cases "U (drop 6 line) r")
        case (Inl err)
        show ?thesis
          by (simp add: loop_long_err [where U = U and r = r, OF rb' long Inl] tl longer_than_6_def long Inl)
      next
        case (Inr r')
        have ih: "CreateChatMessage_loop U r' (sb @ Completion r') rest e =
          (case decode_into U r' (longer_than_6 (terminated_lines rest)) of
             Inl err \<Rightarrow> Inl (Errorf ''CreateChatMessage unmarshal response body err: %v'' [ArgErr err])
           | Inr rs \<Rightarrow>
               if e = EOF then Inr ((last (r' # rs))\<lparr>Completion := (sb @ Completion r') @ concat (map Completion rs)\<rparr>)
               else Inl (Errorf ''CreateChatMessage read response body err: %v'' [ArgErr e]))"
          using "1.IH"(1) [OF rb [symmetric] refl] True long Inr by simp
        show ?thesis
          unfolding loop_long_ok [where U = U and r = r, OF rb' long Inr] ih
          by (simp add: tl longer_than_6_def long Inr split: sum.splits)
      qed
    next
      case short: False
      have ih: "CreateChatMessage_loop U r sb rest e =
          (case decode_into U r (longer_than_6 (terminated_lines rest)) of
             Inl err \<Rightarrow> Inl (Errorf ''CreateChatMessage unmarshal response body err: %v'' [ArgErr err])
           | Inr rs \<Rightarrow>
               if e = EOF then Inr ((last (r # rs))\<lparr>Completion := sb @ concat (map Completion rs)\<rparr>)
               else Inl (Errorf ''CreateChatMessage read response body err: %v'' [ArgErr e]))"
        using "1.IH"(2) [OF rb [symmetric] refl] True short by simp
      show ?thesis
        unfolding loop_short [OF rb' short] ih
        by (simp add: tl longer_than_6_def short)
    qed
  qed
qed

lemma CreateChatMessage_eq:
  "CreateChatMessage U zero (resp, statusCode, None) =
     (if statusCode \<ge> 400
      then Inl (Errorf ''CreateChatMessage status_code %d err: %v'' [ArgInt statusCode, ArgNil])
      else case decode_into U zero (longer_than_6 (terminated_lines (content resp))) of
             Inl err \<Rightarrow> Inl (Errorf ''CreateChatMessage unmarshal response body err: %v'' [ArgErr err])
           | Inr rs \<Rightarrow>
               if closing resp = EOF
               then Inr ((last (zero # rs))\<lparr>Completion := concat (map Completion rs)\<rparr>)
               else Inl (Errorf ''CreateChatMessage read response body err: %v'' [ArgErr (closing resp)]))"
  by (simp add: CreateChatMessage_def CreateChatMessage_loop_eq split: sum.splits)

lemma decode_into_parsed:
  "decode_into U r ls = Inr rs \<Longrightarrow> \<forall>l\<in>set ls. carries_Completion U zero l \<Longrightarrow>
   map Completion rs = map (parsed_Completion U zero) ls"
proof (induction ls arbitrary: r rs)
  case Nil
  then show ?case by simp
next
  case (Cons l ls)
  from Cons.prems(1) obtain r' rs' where
    u: "U (drop 6 l) r = Inr r'" and d: "decode_into U r' ls = Inr rs'" and rs: "rs = r' # rs'"
    by (auto split: sum.splits)
  from Cons.prems(2) have c: "carries_Completion U zero l" by simp
  from c have "case U (drop 6 l) r of
             Inl err \<Rightarrow> True
           | Inr r' \<Rightarrow>
               (case U (drop 6 l) zero of
                  Inl err \<Rightarrow> False
                | Inr x \<Rightarrow> Completion r' = Completion x)"
    unfolding carries_Completion_def by (rule spec)
  with u have "Completion r' = parsed_Completion U zero l"
    by (simp add: parsed_Completion_def split: sum.splits)
  moreover from Cons.IH [OF d] Cons.prems(2)
  have "map Completion rs' = map (parsed_Completion U zero) ls" by simp
  ultimately show ?case using rs by simp
qed

lemma decode_into_total:
  "\<forall>l\<in>set ls. \<forall>r. \<exists>r'. U (drop 6 l) r = Inr r' \<Longrightarrow> \<exists>rs. decode_into U r ls = Inr rs"
proof (induction ls arbitrary: r)
  case Nil
  show ?case by simp
next
  case (Cons l ls)
  from Cons.prems have "\<forall>v. \<exists>v'. U (drop 6 l) v = Inr v'" by simp
  then obtain r' where u: "U (drop 6 l) r = Inr r'" by blast
  from Cons.IH [of r'] Cons.prems obtain rs where "decode_into U r' ls = Inr rs" by auto
  with u show ?case by simp
qed

text \<open>
  C10, restricted to newline-terminated lines. For every body read by
  \<open>ClaudeWeb.CreateChatMessage\<close>, the \<open>Completion\<close> of the returned response is the
  concatenation, in order, of the \<open>Completion\<close> fields parsed from the newline-terminated
  lines longer than 6 bytes (the newline counted), each of them carrying its own
  completion; lines of 6 bytes or fewer add nothing and raise no error, and the bytes
  after the last newline are not read as a line. A response is returned whenever the
  status is below 400, the body ends with \<open>io.EOF\<close> and the lines longer than 6 bytes
  decode.
\<close>

theorem CreateChatMessage_Completion:
  "(CreateChatMessage U zero (resp, statusCode, None) = Inr r \<and>
    (\<forall>l\<in>set (longer_than_6 (terminated_lines (content resp))). carries_Completion U zero l) \<longrightarrow>
      Completion r =
        concat (map (parsed_Completion U zero) (longer_than_6 (terminated_lines (content resp))))) \<and>
   (statusCode < 400 \<and> closing resp = EOF \<and>
    (\<forall>l\<in>set (longer_than_6 (terminated_lines (content resp))). \<forall>v. \<exists>v'. U (drop 6 l) v = Inr v') \<longrightarrow>
      (\<exists>r'. CreateChatMessage U zero (resp, statusCode, None) = Inr r'))"
proof -
  let ?ls = "longer_than_6 (terminated_lines (content resp))"
  have A: "Completion r = concat (map (parsed_Completion U zero) ?ls)"
    if ret: "CreateChatMessage U zero (resp, statusCode, None) = Inr r"
      and car: "\<forall>l\<in>set ?ls. carries_Completion U zero l"
  proof -
    from ret obtain rs where d: "decode_into U zero ?ls = Inr rs"
      and c: "Completion r = concat (map Completion rs)"
      unfolding CreateChatMessage_eq by (auto split: if_splits sum.splits)
    from decode_into_parsed [OF d car] c show ?thesis by simp
  qed
  have B: "\<exists>r'. CreateChatMessage U zero (resp, statusCode, None) = Inr r'"
    if "statusCode < 400" and "closing resp = EOF"
      and tot: "\<forall>l\<in>set ?ls. \<forall>v. \<exists>v'. U (drop 6 l) v = Inr v'"
  proof -
    from decode_into_total [OF tot, of zero] obtain rs where "decode_into U zero ?ls = Inr rs" by blast
    with that(1,2) show ?thesis unfolding CreateChatMessage_eq by simp
  qed
  show ?thesis using A B by blast
qed

theorem CreateChatMessage_Completion_witness:
  "list_all (carries_Completion (\<lambda>p r. Inr (r\<lparr>Completion := takeWhile (\<lambda>c. c \<noteq> CHR 0x0A) p\<rparr>)) \<lparr>Completion = []\<rparr>)
     (longer_than_6 (terminated_lines
        (''data: Hello'' @ [CHR 0x0A] @ ''ping'' @ [CHR 0x0A] @ ''data: World'' @ [CHR 0x0A]))) \<and>
   CreateChatMessage (\<lambda>p r. Inr (r\<lparr>Completion := takeWhile (\<lambda>c. c \<noteq> CHR 0x0A) p\<rparr>)) \<lparr>Completion = []\<rparr>
     (\<lparr>content = ''data: Hello'' @ [CHR 0x0A] @ ''ping'' @ [CHR 0x0A] @ ''data: World'' @ [CHR 0x0A],
       closing = EOF\<rparr>, 200, None) = Inr \<lparr>Completion = ''HelloWorld''\<rparr> \<and>
   concat (map (parsed_Completion (\<lambda>p r. Inr (r\<lparr>Completion := takeWhile (\<lambda>c. c \<noteq> CHR 0x0A) p\<rparr>)) \<lparr>Completion = []\<rparr>)
     (longer_than_6 (terminated_lines
        (''data: Hello'' @ [CHR 0x0A] @ ''ping'' @ [CHR 0x0A] @ ''data: World'' @ [CHR 0x0A])))) = ''HelloWorld''"
proof -
  let ?U = "\<lambda>p r. Inr (r\<lparr>Completion := takeWhile (\<lambda>c. c \<noteq> CHR 0x0A) p\<rparr>)
              :: error + ChatMessageResponse"
  let ?z = "\<lparr>Completion = []\<rparr>"
  let ?body = "''data: Hello'' @ [CHR 0x0A] @ ''ping'' @ [CHR 0x0A] @ ''data: World'' @ [CHR 0x0A]"
  have L: "longer_than_6 (terminated_lines ?body) =
      [''data: Hello'' @ [CHR 0x0A], ''data: World'' @ [CHR 0x0A]]"
    by (simp add: terminated_lines.simps ReadBytes_def longer_than_6_def)
  note L' = L [simplified]
  have C: "CreateChatMessage ?U ?z (\<lparr>content = ?body, closing = EOF\<rparr>, 200, None) =
      Inr \<lparr>Completion = ''HelloWorld''\<rparr>"
    unfolding CreateChatMessage_eq by (simp add: L')
  have H: "\<forall>l\<in>set (longer_than_6 (terminated_lines (content \<lparr>content = ?body, closing = EOF\<rparr>))).
      carries_Completion ?U ?z l"
    by (simp add: L' carries_Completion_def)
  have P: "Completion \<lparr>Completion = ''HelloWorld''\<rparr> =
      concat (map (parsed_Completion ?U ?z)
        (longer_than_6 (terminated_lines (content \<lparr>content = ?body, closing = EOF\<rparr>))))"
    using CreateChatMessage_Completion
      [where U = ?U and zero = ?z and resp = "\<lparr>content = ?body, closing = EOF\<rparr>"
         and statusCode = 200 and r = "\<lparr>Completion = ''HelloWorld''\<rparr>"] C H
    by blast
  from H have H': "list_all (carries_Completion ?U ?z) (longer_than_6 (terminated_lines ?body))"
    by (simp add: list_all_iff)
  from P have P': "concat (map (parsed_Completion ?U ?z) (longer_than_6 (terminated_lines ?body))) =
      ''HelloWorld''"
    by simp
  show ?thesis using H' C P' by blast
qed

text \<open>
  C10, as stated, counts every line longer than 6 bytes. A body whose only line is not
  ended by a newline is read as no line at all: the completion returned is empty, while
  the line carries the completion \<open>hi\<close>.
\<close>

theorem CreateChatMessage_unterminated_line_counterexample:
  \<open>CreateChatMessage
      (\<lambda>p r. if p = ''{"completion":"hi"}'' then Inr (r\<lparr>Completion := ''hi''\<rparr>)
              else Inl (Lib ''invalid character''))
      \<lparr>Completion = []\<rparr>
      (\<lparr>content = ''data: {"completion":"hi"}'', closing = EOF\<rparr>, 200, None)
     = Inr \<lparr>Completion = []\<rparr> \<and>
   stated_Completion
      (\<lambda>p r. if p = ''{"completion":"hi"}'' then Inr (r\<lparr>Completion := ''hi''\<rparr>)
              else Inl (Lib ''invalid character''))
      \<lparr>Completion = []\<rparr> ''data: {"completion":"hi"}''
     = ''hi''\<close>
  by (simp add: CreateChatMessage_def CreateChatMessage_loop.simps stated_Completion_def every_line_def
        parsed_Completion_def
        terminated_lines.simps last_fragment.simps ReadBytes_def longer_than_6_def)

text \<open>
  What is appended for a line that does not carry its own completion is left out of the
  statement above. \<open>CreateChatMessage\<close> decodes every line into the one variable declared
  before the loop, so such a line appends the completion of the line before it once
  more; \<open>CreateChatMessageStream\<close>, which declares the variable inside the loop, sends an
  empty completion for it.
\<close>

lemma CreateChatMessage_reappends_stale_Completion:
  \<open>CreateChatMessage
      (\<lambda>p r. if p = ''{"completion":"a"}'' @ [CHR 0x0A] then Inr (r\<lparr>Completion := ''a''\<rparr>)
              else if p = ''{"stop_reason":"x"}'' @ [CHR 0x0A] then Inr r
              else Inl (Lib ''invalid character''))
      \<lparr>Completion = []\<rparr>
      (\<lparr>content = ''data: {"completion":"a"}'' @ [CHR 0x0A] @ ''data: {"stop_reason":"x"}'' @ [CHR 0x0A],
        closing = EOF\<rparr>, 200, None)
     = Inr \<lparr>Completion = ''aa''\<rparr> \<and>
   CreateChatMessageStream
      (\<lambda>p r. if p = ''{"completion":"a"}'' @ [CHR 0x0A] then Inr (r\<lparr>Completion := ''a''\<rparr>)
              else if p = ''{"stop_reason":"x"}'' @ [CHR 0x0A] then Inr r
              else Inl (Lib ''invalid character''))
      \<lparr>Completion = []\<rparr>
      (\<lparr>content = ''data: {"completion":"a"}'' @ [CHR 0x0A] @ ''data: {"stop_reason":"x"}'' @ [CHR 0x0A],
        closing = EOF\<rparr>, 200, None)
     = [dataChan \<lparr>Completion = ''a''\<rparr>, dataChan \<lparr>Completion = []\<rparr>, errChan EOF]\<close>
  by (simp add: CreateChatMessage_def CreateChatMessage_loop.simps CreateChatMessageStream_def
        ReadBytes_def)

section \<open>Upstream failures\<close>

lemma claude_single_upstream_call:
  "length (fst (claude_CreateChatCompletionStream M I D T req)) = 1"
  by (simp add: claude_CreateChatCompletionStream_def Let_def split: sum.splits)

lemma claude_ignores_stream_Err:
  "claude_CreateChatCompletionStream M (\<lambda>i. Inr \<lparr>Events = events, Err = failure\<rparr>) D T req =
   claude_CreateChatCompletionStream M (\<lambda>i. Inr \<lparr>Events = events, Err = None\<rparr>) D T req"
  by (simp add: claude_CreateChatCompletionStream_def)

lemma claude_forwards_initial_error:
  "I \<lparr>ModelId = Model req, InputBody = M req, ContentType = ''application/json''\<rparr> = Inl err \<Longrightarrow>
   snd (claude_CreateChatCompletionStream M I D T req) = [errChan err]"
  by (simp add: claude_CreateChatCompletionStream_def)

lemma events_loop_forwards_decode_error:
  "\<forall>b\<in>set good. D b = Inr (R b) \<Longrightarrow> D bad = Inl err \<Longrightarrow>
   events_loop D T sb (map ResponseStreamMemberChunk good @ ResponseStreamMemberChunk bad # rest) =
     map (\<lambda>b. dataChan (T (R b))) good @ [errChan err]"
  by (induction good arbitrary: sb) simp_all

lemma events_loop_forwards_unknown_event:
  "\<forall>b\<in>set good. D b = Inr (R b) \<Longrightarrow>
   events_loop D T sb (map ResponseStreamMemberChunk good @ UnknownUnionMember # rest) =
     map (\<lambda>b. dataChan (T (R b))) good @
     [errChan (Errorf ''unknown event type: %T'' [ArgType ''*types.UnknownUnionMember''])]"
  by (induction good arbitrary: sb) simp_all

lemma stream_loop_read_error_not_EOF:
  "c \<noteq> EOF \<Longrightarrow> errChan EOF \<notin> set (CreateChatMessageStream_loop U z buf c)"
proof (induction U z buf c rule: CreateChatMessageStream_loop.induct)
  case (1 U z buf c)
  obtain line rest found where rb: "ReadBytes (CHR 0x0A) buf = (line, rest, found)"
    by (cases "ReadBytes (CHR 0x0A) buf") auto
  show ?case
  proof (cases found)
    case False
    with rb "1.prems" show ?thesis by simp
  next
    case True
    show ?thesis
    proof (cases "length line > 6")
      case long: True
      show ?thesis
      proof (cases "U (drop 6 line) z")
        case (Inl err)
        with rb True long show ?thesis by simp
      next
        case (Inr r)
        from "1.IH"(1) [OF rb [symmetric] refl] True long Inr "1.prems"
        have "errChan EOF \<notin> set (CreateChatMessageStream_loop U z rest c)" by auto
        with rb True long Inr show ?thesis by simp
      qed
    next
      case short: False
      from "1.IH"(2) [OF rb [symmetric] refl] True short "1.prems"
      have "errChan EOF \<notin> set (CreateChatMessageStream_loop U z rest c)" by auto
      with rb True short show ?thesis by simp
    qed
  qed
qed

text \<open>
  C3 asks that a network error on a read be forwarded as the terminal error signal. The
  Bedrock loop only ranges over \<open>Events()\<close> and never consults \<open>Err()\<close>: a stream that the
  SDK closed after one chunk because the connection was reset ends with \<open>io.EOF\<close> on the
  error channel, as a stream that ended well does. (The initial call's error, a chunk that
  does not decode and an unknown event type are forwarded, the call is made once, and
  the Claude web client never answers a failed read with \<open>io.EOF\<close>: the lemmas above.)
\<close>

theorem bedrock_read_failure_sent_as_EOF:
  "claude_CreateChatCompletionStream
      (\<lambda>r. ''{}'')
      (\<lambda>i. Inr \<lparr>Events = [ResponseStreamMemberChunk ''x''], Err = Some (Lib ''connection reset by peer'')\<rparr>)
      (\<lambda>b. Inr \<lparr>BedrockResponse.Completion = b\<rparr>) BedrockResponse.Completion
      \<lparr>Model = ''anthropic.claude-v2'', Stream = True\<rparr> =
   ([\<lparr>ModelId = ''anthropic.claude-v2'', InputBody = ''{}'',
      ContentType = ''application/json''\<rparr>],
    [dataChan ''x'', errChan EOF])"
  by (simp add: claude_CreateChatCompletionStream_def)

section \<open>HTTP handlers: results\<close>

lemma LLMHandler_stops_at_error:
  "LLMHandler_chatStream Marshal conn (errChan err # sends) =
     ([SetHeader ''Content-Type'' ''text/event-stream'', SetHeader ''Cache-Control'' ''no-cache'',
       SetHeader ''Connection'' ''keep-alive'', WriteHeader 200,
       String (if errors_Is_EOF err then 200 else 500)
              (if errors_Is_EOF err then Text sse_done else Error_of err)],
      True)"
  by (simp add: LLMHandler_chatStream_def)

text \<open>
  C4 asks that the relay loop stop with an error response on any error other than
  \<open>io.EOF\<close>. \<open>OpenAIHandler.chatStream\<close> tests the error of \<open>Recv\<close> against \<open>io.EOF\<close> only:
  when \<open>Recv\<close> fails with a reset connection, the handler writes a frame for the response
  value that came with the error, flushes, calls \<open>Recv\<close> again and, on \<open>io.EOF\<close>, ends with
  \<open>data: [DONE]\<close> and status 200. \<open>LLMHandler.chatStream\<close> stops at the first error.
\<close>

theorem OpenAIHandler_relays_after_error:
  "OpenAIHandler_chatStream (\<lambda>resp. Inr resp) (\<lambda>n. None)
      (Inr [(''{}'', Some (Lib ''connection reset by peer'')), (''{}'', Some EOF)]) =
   ([SetHeader ''Content-Type'' ''application/json; charset=UTF-8'', WriteHeader 200,
     Write (sse_frame ''{}''), Flush, String 200 (Text sse_done)],
    True)"
  by (simp add: OpenAIHandler_chatStream_def)

end
